theory Spec2Isabelle
  imports Complex_Main "HOL-Library.AList"
begin

section \<open>JavaScript numbers\<close>

text \<open>
  The dashboard computes with JavaScript numbers.  The model keeps the three special
  values of the number type, so that a division by zero is a value of the model
  (\<open>NaN\<close> or an infinity) and not HOL's \<open>x / 0 = 0\<close>.  A finite number is an exact
  real: the rounding of IEEE-754 doubles and the sign of zero are abstracted.
\<close>

datatype jsnum = Fin real | PosInf | NegInf | NaN

fun js_add :: "jsnum \<Rightarrow> jsnum \<Rightarrow> jsnum" where
  "js_add NaN y = NaN"
| "js_add x NaN = NaN"
| "js_add (Fin a) (Fin b) = Fin (a + b)"
| "js_add (Fin a) y = y"
| "js_add x (Fin b) = x"
| "js_add x y = (if x = y then x else NaN)"

fun js_neg :: "jsnum \<Rightarrow> jsnum" where
  "js_neg (Fin a) = Fin (- a)"
| "js_neg PosInf = NegInf"
| "js_neg NegInf = PosInf"
| "js_neg NaN = NaN"

definition js_sub :: "jsnum \<Rightarrow> jsnum \<Rightarrow> jsnum" where
  "js_sub x y = js_add x (js_neg y)"

fun js_mul :: "jsnum \<Rightarrow> jsnum \<Rightarrow> jsnum" where
  "js_mul NaN y = NaN"
| "js_mul x NaN = NaN"
| "js_mul (Fin a) (Fin b) = Fin (a * b)"
| "js_mul (Fin a) y =
     (if a = 0 then NaN else if (0 < a) = (y = PosInf) then PosInf else NegInf)"
| "js_mul x (Fin b) =
     (if b = 0 then NaN else if (0 < b) = (x = PosInf) then PosInf else NegInf)"
| "js_mul x y = (if x = y then PosInf else NegInf)"

fun js_div :: "jsnum \<Rightarrow> jsnum \<Rightarrow> jsnum" where
  "js_div NaN y = NaN"
| "js_div x NaN = NaN"
| "js_div (Fin a) (Fin b) =
     (if b = 0 then (if a = 0 then NaN else if 0 < a then PosInf else NegInf)
      else Fin (a / b))"
| "js_div (Fin a) y = Fin 0"
| "js_div x (Fin b) = (if (0 \<le> b) = (x = PosInf) then PosInf else NegInf)"
| "js_div x y = NaN"

text \<open>\<open>Math.pow\<close> at an integer exponent; \<open>Math.pow(x, 0)\<close> is 1 for every \<open>x\<close>.\<close>

definition pow_nat :: "jsnum \<Rightarrow> nat \<Rightarrow> jsnum" where
  "pow_nat x n =
     (if n = 0 then Fin 1
      else case x of
             Fin a \<Rightarrow> Fin (a ^ n)
           | PosInf \<Rightarrow> PosInf
           | NegInf \<Rightarrow> (if odd n then NegInf else PosInf)
           | NaN \<Rightarrow> NaN)"

definition Math_pow :: "jsnum \<Rightarrow> int \<Rightarrow> jsnum" where
  "Math_pow x n =
     (if 0 \<le> n then pow_nat x (nat n) else js_div (Fin 1) (pow_nat x (nat (- n))))"

fun Math_max :: "jsnum \<Rightarrow> jsnum \<Rightarrow> jsnum" where
  "Math_max NaN y = NaN"
| "Math_max x NaN = NaN"
| "Math_max (Fin a) (Fin b) = Fin (max a b)"
| "Math_max PosInf y = PosInf"
| "Math_max x PosInf = PosInf"
| "Math_max NegInf y = y"
| "Math_max x NegInf = x"

text \<open>\<open>x >= y\<close>: false as soon as one side is \<open>NaN\<close>.\<close>

fun js_ge :: "jsnum \<Rightarrow> jsnum \<Rightarrow> bool" where
  "js_ge NaN y = False"
| "js_ge x NaN = False"
| "js_ge (Fin a) (Fin b) = (b \<le> a)"
| "js_ge PosInf y = True"
| "js_ge x NegInf = True"
| "js_ge x y = False"

text \<open>\<open>x !== y\<close> on numbers: \<open>NaN\<close> differs from everything, itself included.\<close>

definition js_strict_neq :: "jsnum \<Rightarrow> jsnum \<Rightarrow> bool" where
  "js_strict_neq x y = (x = NaN \<or> y = NaN \<or> x \<noteq> y)"

text \<open>\<open>v || 0\<close> where \<open>v\<close> is a number or \<open>undefined\<close>: 0 and \<open>NaN\<close> are falsy.\<close>

definition js_or0 :: "jsnum option \<Rightarrow> jsnum" where
  "js_or0 v = (case v of None \<Rightarrow> Fin 0
               | Some q \<Rightarrow> (if q = Fin 0 \<or> q = NaN then Fin 0 else q))"

section \<open>The data model (types.ts)\<close>

text \<open>
  Ages and the insurance year are whole years, as the data model has them; amounts and
  rates are numbers.
\<close>

record RetirementPlan =
  currentAge :: int
  retirementAge :: int
  currentSavings :: jsnum
  monthlySavings :: jsnum
  targetMonthlyPension :: jsnum
  expectedAnnualReturn :: jsnum
  insurancePrincipal :: jsnum
  insuranceRate :: jsnum
  insuranceYearDone :: int

record RetirementResult =
  yearsToRetire :: int
  totalAccumulated :: jsnum
  monthlyPensionPossible :: jsnum
  isGoalReachable :: bool
  shortfall :: jsnum
  advice :: string

datatype Recommendation = BUY | SELL | HOLD

record StockAnalysis =
  symbol :: string
  name :: string
  marketCap :: string
  high52Week :: jsnum
  low52Week :: jsnum
  currentPrice :: jsnum
  suggestBuyPrice :: jsnum
  suggestSellPrice :: jsnum
  recommendation :: Recommendation
  analysis :: string
  projectedAnnualYield :: string
  exampleScenario :: string

section \<open>Persisted values\<close>

text \<open>
  What \<open>localStorage.getItem\<close> and \<open>JSON.parse\<close> make of a key: nothing stored
  (\<open>null\<close>, or the empty string, which the code tests the same way), a string that
  \<open>JSON.parse\<close> throws on, or the parsed value.
\<close>

datatype 'a stored = Absent | Unparseable | Parsed 'a

text \<open>
  The object parsed from the key \<open>finance_retirement_plan\<close>: each field of the plan
  is there with a number, or is missing or \<open>null\<close>.
\<close>

record PlanJson =
  j_currentAge :: "int option"
  j_retirementAge :: "int option"
  j_currentSavings :: "jsnum option"
  j_monthlySavings :: "jsnum option"
  j_targetMonthlyPension :: "jsnum option"
  j_expectedAnnualReturn :: "jsnum option"
  j_insurancePrincipal :: "jsnum option"
  j_insuranceRate :: "jsnum option"
  j_insuranceYearDone :: "int option"



text \<open>The plan of the \<open>catch\<close> branch of the initialiser.\<close>

definition defaultPlan :: RetirementPlan where
  "defaultPlan = \<lparr> currentAge = 30, retirementAge = 65, currentSavings = Fin 1000000,
      monthlySavings = Fin 20000, targetMonthlyPension = Fin 50000,
      expectedAnnualReturn = Fin 6, insurancePrincipal = Fin 200000,
      insuranceRate = Fin 2.5, insuranceYearDone = 2022 \<rparr>"




text \<open>
  \<open>JSON.stringify(plan)\<close>, read back: a finite number is written as it is, \<open>NaN\<close> and
  the infinities are written as \<open>null\<close>.
\<close>

definition json_num :: "jsnum \<Rightarrow> jsnum option" where
  "json_num x = (case x of Fin a \<Rightarrow> Some (Fin a) | PosInf \<Rightarrow> None | NegInf \<Rightarrow> None
                 | NaN \<Rightarrow> None)"

definition stringifyPlan :: "RetirementPlan \<Rightarrow> PlanJson" where
  "stringifyPlan p =
     \<lparr> j_currentAge = Some (currentAge p),
       j_retirementAge = Some (retirementAge p),
       j_currentSavings = json_num (currentSavings p),
       j_monthlySavings = json_num (monthlySavings p),
       j_targetMonthlyPension = json_num (targetMonthlyPension p),
       j_expectedAnnualReturn = json_num (expectedAnnualReturn p),
       j_insurancePrincipal = json_num (insurancePrincipal p),
       j_insuranceRate = json_num (insuranceRate p),
       j_insuranceYearDone = Some (insuranceYearDone p) \<rparr>"

section \<open>RetirementCalc: the projection\<close>

text \<open>
  The component's state.  \<open>savedPlan\<close> is the value under the storage key
  \<open>finance_retirement_plan\<close>.
\<close>

record CalcState =
  plan :: RetirementPlan
  cashSavings :: jsnum
  result :: "RetirementResult option"
  savedPlan :: "PlanJson stored"

text \<open>The values derived on every render; \<open>yr\<close> is \<open>new Date().getFullYear()\<close>.\<close>

definition planYearsToRetire :: "RetirementPlan \<Rightarrow> int" where
  "planYearsToRetire p = retirementAge p - currentAge p"

definition retireYear :: "int \<Rightarrow> RetirementPlan \<Rightarrow> int" where
  "retireYear yr p = yr + planYearsToRetire p"

definition insuranceCompoundingYears :: "int \<Rightarrow> RetirementPlan \<Rightarrow> int" where
  "insuranceCompoundingYears yr p = max 0 (retireYear yr p - insuranceYearDone p)"

text \<open>The locals of \<open>calculate\<close>, in its order.\<close>

definition monthlyRate :: "RetirementPlan \<Rightarrow> jsnum" where
  "monthlyRate p = js_div (js_div (expectedAnnualReturn p) (Fin 100)) (Fin 12)"

definition months :: "RetirementPlan \<Rightarrow> int" where
  "months p = planYearsToRetire p * 12"

definition fvLumpSum :: "RetirementPlan \<Rightarrow> jsnum" where
  "fvLumpSum p =
     js_mul (currentSavings p) (Math_pow (js_add (Fin 1) (monthlyRate p)) (months p))"

definition fvMonthly :: "RetirementPlan \<Rightarrow> jsnum" where
  "fvMonthly p =
     js_mul (monthlySavings p)
       (js_div (js_sub (Math_pow (js_add (Fin 1) (monthlyRate p)) (months p)) (Fin 1))
          (monthlyRate p))"

definition fvInsurance :: "int \<Rightarrow> RetirementPlan \<Rightarrow> jsnum" where
  "fvInsurance yr p =
     js_mul (insurancePrincipal p)
       (Math_pow (js_add (Fin 1) (js_div (insuranceRate p) (Fin 100)))
          (insuranceCompoundingYears yr p))"

definition calcResult :: "int \<Rightarrow> RetirementPlan \<Rightarrow> RetirementResult" where
  "calcResult yr p =
     (let total = js_add (js_add (fvLumpSum p) (fvMonthly p)) (fvInsurance yr p);
          safeAnnualWithdrawal = js_mul total (Fin 0.04);
          pension = js_div safeAnnualWithdrawal (Fin 12);
          requiredTotal = js_div (js_mul (targetMonthlyPension p) (Fin 12)) (Fin 0.04)
      in \<lparr> yearsToRetire = planYearsToRetire p,
           totalAccumulated = total,
           monthlyPensionPossible = pension,
           isGoalReachable = js_ge pension (targetMonthlyPension p),
           shortfall = Math_max (Fin 0) (js_sub requiredTotal total),
           advice = [] \<rparr>)"

text \<open>
  \<open>calculate\<close> closes over the plan of the render it was created in, hence the plan
  is an argument; it returns early, without \<open>setResult\<close>, when there are no years left.
\<close>

definition calculate :: "int \<Rightarrow> RetirementPlan \<Rightarrow> CalcState \<Rightarrow> CalcState" where
  "calculate yr p st =
     (if planYearsToRetire p \<le> 0 then st
      else st\<lparr> result := Some (calcResult yr p) \<rparr>)"

section \<open>RetirementCalc: cash, portfolio value and the plan's total\<close>

record CalcProps =
  props_portfolioStocks :: "StockAnalysis list"
  props_stockQuantities :: "(string \<times> jsnum) list"

text \<open>
  \<open>portfolioStocks.reduce((sum, stock) => sum + stock.currentPrice * qty, 0)\<close> with
  \<open>qty = stockQuantities[stock.symbol] || 0\<close>.  An object used as a dictionary is
  the list of its entries; \<open>map_of\<close> is the property read.
\<close>

definition portfolioTotalValue :: "CalcProps \<Rightarrow> jsnum" where
  "portfolioTotalValue props =
     foldl (\<lambda>sum stock.
              js_add sum
                (js_mul (currentPrice stock)
                   (js_or0 (map_of (props_stockQuantities props) (symbol stock)))))
       (Fin 0) (props_portfolioStocks props)"

text \<open>
  The effect on \<open>[plan]\<close>: it writes the plan of its render to storage and calls that
  render's \<open>calculate\<close>.
\<close>

definition planEffect :: "int \<Rightarrow> RetirementPlan \<Rightarrow> CalcState \<Rightarrow> CalcState" where
  "planEffect yr p st = calculate yr p (st\<lparr> savedPlan := Parsed (stringifyPlan p) \<rparr>)"

text \<open>
  The effect on \<open>[cashSavings, portfolioTotalValue]\<close>.  When it sets the plan, the
  component renders again and the effect on \<open>[plan]\<close> runs with the new plan.
\<close>

definition syncEffect :: "int \<Rightarrow> jsnum \<Rightarrow> CalcState \<Rightarrow> CalcState" where
  "syncEffect yr ptv st =
     (let totalInvestableAssets = js_add (cashSavings st) ptv
      in if js_strict_neq (currentSavings (plan st)) totalInvestableAssets
         then (let p' = (plan st)\<lparr> currentSavings := totalInvestableAssets \<rparr>
               in planEffect yr p' (st\<lparr> plan := p' \<rparr>))
         else st)"













section \<open>App: the three persisted collections\<close>

record Storage =
  finance_portfolio_symbols :: "string list stored"
  finance_stock_quantities :: "(string \<times> jsnum) list stored"
  finance_portfolio_data :: "StockAnalysis list stored"

text \<open>The two messages of \<open>setErrorMsg\<close>.\<close>

datatype ErrMsg = AnalyzeFailedMsg | TrendsFailedMsg

record AppState =
  stockQuantities :: "(string \<times> jsnum) list"
  mySymbols :: "string list"
  portfolioStocks :: "StockAnalysis list"
  portfolioLoading :: bool
  inputSymbol :: string
  errorMsg :: "ErrMsg option"
  localStorage :: Storage

subsection \<open>State initialisation\<close>

definition initStockQuantities :: "Storage \<Rightarrow> (string \<times> jsnum) list" where
  "initStockQuantities s =
     (case finance_stock_quantities s of
        Absent \<Rightarrow> []
      | Unparseable \<Rightarrow> []
      | Parsed q \<Rightarrow> q)"

text \<open>
  The initialiser of \<open>mySymbols\<close>.  One \<open>try\<close> holds both parses: a throw of either
  \<open>JSON.parse\<close> lands in the \<open>catch\<close>, which returns the empty list.
\<close>

definition recoverFromQuantities :: "string list \<Rightarrow> Storage \<Rightarrow> string list \<times> Storage" where
  "recoverFromQuantities symbols s =
     (case finance_stock_quantities s of
        Absent \<Rightarrow> (symbols, s)
      | Unparseable \<Rightarrow> ([], s)
      | Parsed qtyMap \<Rightarrow>
          (let recoveredSymbols = map fst qtyMap
           in if length recoveredSymbols > 0
              then (recoveredSymbols, s\<lparr> finance_portfolio_symbols := Parsed recoveredSymbols \<rparr>)
              else (symbols, s)))"

definition initMySymbols :: "Storage \<Rightarrow> string list \<times> Storage" where
  "initMySymbols s =
     (case finance_portfolio_symbols s of
        Unparseable \<Rightarrow> ([], s)
      | Absent \<Rightarrow> recoverFromQuantities [] s
      | Parsed symbols \<Rightarrow>
          (if length symbols = 0 then recoverFromQuantities symbols s else (symbols, s)))"

definition initPortfolioStocks :: "Storage \<Rightarrow> StockAnalysis list" where
  "initPortfolioStocks s =
     (case finance_portfolio_data s of
        Absent \<Rightarrow> []
      | Unparseable \<Rightarrow> []
      | Parsed d \<Rightarrow> d)"

text \<open>
  The watch-list as a plain read of its key gives it, with the fallback to the empty
  list and without the recovery.
\<close>

definition loadedWatchList :: "Storage \<Rightarrow> string list" where
  "loadedWatchList s =
     (case finance_portfolio_symbols s of
        Absent \<Rightarrow> []
      | Unparseable \<Rightarrow> []
      | Parsed symbols \<Rightarrow> symbols)"

text \<open>
  The first render of \<open>App\<close>: the three initialisers in their order, then the three
  persistence effects, which write each collection back under its key.
\<close>

definition initApp :: "Storage \<Rightarrow> AppState" where
  "initApp s =
     (let q = initStockQuantities s;
          (symbols, s1) = initMySymbols s;
          d = initPortfolioStocks s1
      in \<lparr> stockQuantities = q, mySymbols = symbols, portfolioStocks = d,
           portfolioLoading = False, inputSymbol = [], errorMsg = None,
           localStorage =
             \<lparr> finance_portfolio_symbols = Parsed symbols,
               finance_stock_quantities = Parsed q,
               finance_portfolio_data = Parsed d \<rparr> \<rparr>)"

subsection \<open>handleAddSymbol\<close>

text \<open>
  Symbols are ASCII text.  \<open>split(/[, ]+/)\<close> cuts at every maximal run of commas and
  spaces; a run at either end leaves an empty string there.
\<close>

definition isSeparator :: "char \<Rightarrow> bool" where
  "isSeparator c = (c = CHR '','' \<or> c = CHR '' '')"

function js_split :: "string \<Rightarrow> string \<Rightarrow> string list" where
  "js_split cur [] = [rev cur]"
| "js_split cur (c # cs) =
     (if isSeparator c then rev cur # js_split [] (dropWhile isSeparator cs)
      else js_split (c # cur) cs)"
  by pat_completeness auto
termination
  by (relation "measure (\<lambda>(cur, s). length s)")
     (auto simp: less_Suc_eq_le length_dropWhile_le)

text \<open>The white space and line terminators of \<open>trim\<close> in ASCII: tab to carriage return, and space.\<close>

definition isWhiteSpace :: "char \<Rightarrow> bool" where
  "isWhiteSpace c =
     (c \<in> set [CHR 0x09, CHR 0x0A, CHR 0x0B, CHR 0x0C, CHR 0x0D, CHR '' ''])"

definition trim :: "string \<Rightarrow> string" where
  "trim s = rev (dropWhile isWhiteSpace (rev (dropWhile isWhiteSpace s)))"

text \<open>A lower-case ASCII letter loses bit 5; every other character stays.\<close>

definition toUpperChar :: "char \<Rightarrow> char" where
  "toUpperChar c =
     (if 97 \<le> (of_char c :: nat) \<and> (of_char c :: nat) \<le> 122
      then (case c of Char b0 b1 b2 b3 b4 b5 b6 b7 \<Rightarrow> Char b0 b1 b2 b3 b4 False b6 b7)
      else c)"

definition toUpperCase :: "string \<Rightarrow> string" where
  "toUpperCase s = map toUpperChar s"

definition cleanSymbol :: "string \<Rightarrow> string" where
  "cleanSymbol s =
     (let cleanS = toUpperCase (trim s)
      in if cleanS = ''304'' then ''3042'' else cleanS)"

definition newSymbols :: "string \<Rightarrow> string list" where
  "newSymbols input = filter (\<lambda>s. length s > 0) (map cleanSymbol (js_split [] input))"

definition uniqueNewSymbols :: "string list \<Rightarrow> string \<Rightarrow> string list" where
  "uniqueNewSymbols watch input = filter (\<lambda>s. s \<notin> set watch) (newSymbols input)"

definition handleAddSymbol :: "AppState \<Rightarrow> AppState" where
  "handleAddSymbol st =
     (if inputSymbol st \<noteq> [] then
        (let unique = uniqueNewSymbols (mySymbols st) (inputSymbol st)
         in if length unique > 0 then
              (let updatedList = mySymbols st @ unique
               in st\<lparr> mySymbols := updatedList,
                      localStorage :=
                        (localStorage st)\<lparr> finance_portfolio_symbols := Parsed updatedList \<rparr>,
                      inputSymbol := [] \<rparr>)
            else st)
      else st)"

text \<open>
  The operation as the specification words it: the tokens are the maximal runs of
  characters that are not separators; each is trimmed, upper-cased and corrected; the
  empty ones and those on the watch-list are dropped; the rest is what is appended.
\<close>

function tokens :: "(char \<Rightarrow> bool) \<Rightarrow> string \<Rightarrow> string list" where
  "tokens sep s =
     (case dropWhile sep s of
        [] \<Rightarrow> []
      | c # r \<Rightarrow> (c # takeWhile (\<lambda>x. \<not> sep x) r) # tokens sep (dropWhile (\<lambda>x. \<not> sep x) r))"
  by pat_completeness auto
termination
proof (relation "measure (\<lambda>(sep, s). length s)")
  show "wf (measure (\<lambda>(sep, s). length s))" by simp
next
  fix sep :: "char \<Rightarrow> bool" and s :: string and c :: char and r :: string
  assume "dropWhile sep s = c # r"
  then have "Suc (length r) \<le> length s"
    using length_dropWhile_le [of sep s] by simp
  moreover have "length (dropWhile (\<lambda>x. \<not> sep x) r) \<le> length r"
    by (rule length_dropWhile_le)
  ultimately show "((sep, dropWhile (\<lambda>x. \<not> sep x) r), (sep, s)) \<in> measure (\<lambda>(sep, s). length s)"
    by simp
qed

definition addSymbols_spec :: "(char \<Rightarrow> bool) \<Rightarrow> string list \<Rightarrow> string \<Rightarrow> string list" where
  "addSymbols_spec sep watch rawInput =
     filter (\<lambda>t. t \<notin> set watch)
       (filter (\<lambda>t. t \<noteq> []) (map cleanSymbol (tokens sep rawInput)))"

definition commaOrWhiteSpace :: "char \<Rightarrow> bool" where
  "commaOrWhiteSpace c = (c = CHR '','' \<or> isWhiteSpace c)"

subsection \<open>handleRemoveSymbol, handleQuantityChange, hasPendingSymbols\<close>

definition handleRemoveSymbol :: "string \<Rightarrow> AppState \<Rightarrow> AppState" where
  "handleRemoveSymbol symbolToRemove st =
     (let updatedList = filter (\<lambda>s. s \<noteq> symbolToRemove) (mySymbols st);
          updated = filter (\<lambda>s. symbol s \<noteq> symbolToRemove) (portfolioStocks st)
      in st\<lparr> mySymbols := updatedList,
             portfolioStocks := updated,
             localStorage :=
               (localStorage st)\<lparr> finance_portfolio_symbols := Parsed updatedList,
                                  finance_portfolio_data := Parsed updated \<rparr> \<rparr>)"

text \<open>\<open>{ ...prev, [symbol]: qty }\<close>: the entry is replaced where it is, or added.\<close>

definition handleQuantityChange :: "string \<Rightarrow> jsnum \<Rightarrow> AppState \<Rightarrow> AppState" where
  "handleQuantityChange symb qty st =
     (let updated = AList.update symb qty (stockQuantities st)
      in st\<lparr> stockQuantities := updated,
             localStorage := (localStorage st)\<lparr> finance_stock_quantities := Parsed updated \<rparr> \<rparr>)"

definition hasPendingSymbols :: "AppState \<Rightarrow> bool" where
  "hasPendingSymbols st =
     (if length (mySymbols st) = 0 then False
      else if length (portfolioStocks st) = 0 then True
      else (let analyzedSymbols = map symbol (portfolioStocks st)
            in list_ex (\<lambda>s. s \<notin> set analyzedSymbols) (mySymbols st)))"

text \<open>The pending symbols: on the watch-list, with no entry among the analysis results.\<close>

definition pendingSymbols :: "AppState \<Rightarrow> string list" where
  "pendingSymbols st =
     filter (\<lambda>s. s \<notin> set (map symbol (portfolioStocks st))) (mySymbols st)"

subsection \<open>analyzePortfolio and handleAnalyzePortfolio\<close>

text \<open>
  The text of a response, as \<open>extractJson\<close> sees it: what \<open>JSON.parse\<close> makes of the
  first fenced \<open>json\<close> block (when there is one, not empty), of the first bracketed span
  (when there is one), and of the whole text.
\<close>

datatype 'a parse = SyntaxError | Value 'a

record ResponseText =
  jsonBlock :: "StockAnalysis list parse option"
  arrayMatch :: "StockAnalysis list parse option"
  wholeText :: "StockAnalysis list parse"

text \<open>Every throw of \<open>JSON.parse\<close> is caught, and the empty array returned.\<close>

definition orEmpty :: "StockAnalysis list parse \<Rightarrow> StockAnalysis list" where
  "orEmpty p = (case p of SyntaxError \<Rightarrow> [] | Value v \<Rightarrow> v)"

definition extractJson :: "ResponseText \<Rightarrow> StockAnalysis list" where
  "extractJson t =
     (case jsonBlock t of
        Some p \<Rightarrow> orEmpty p
      | None \<Rightarrow>
          (case arrayMatch t of
             Some p \<Rightarrow> orEmpty p
           | None \<Rightarrow> orEmpty (wholeText t)))"

text \<open>The text \<open>"[]"\<close>, which stands in for a response without text.\<close>

definition emptyArrayText :: ResponseText where
  "emptyArrayText = \<lparr> jsonBlock = None, arrayMatch = Some (Value []), wholeText = Value [] \<rparr>"

text \<open>
  What the request does: \<open>getAIClient\<close> throws without a key, \<open>generateContent\<close>
  rejects, or a response arrives, with or without text.
\<close>

datatype ApiError = ApiKeyMissing | RequestRejected

datatype ApiOutcome = Throws ApiError | Responds "ResponseText option"

definition analyzePortfolio :: "ApiOutcome \<Rightarrow> string list \<Rightarrow> ApiError + StockAnalysis list" where
  "analyzePortfolio outcome symbols =
     (if length symbols = 0 then Inr []
      else case outcome of
             Throws e \<Rightarrow> Inl e
           | Responds None \<Rightarrow> Inr (extractJson emptyArrayText)
           | Responds (Some t) \<Rightarrow> Inr (extractJson t))"

definition handleAnalyzePortfolio :: "ApiOutcome \<Rightarrow> AppState \<Rightarrow> AppState" where
  "handleAnalyzePortfolio outcome st =
     (if length (mySymbols st) = 0 then st
      else case analyzePortfolio outcome (mySymbols st) of
             Inr data \<Rightarrow>
               st\<lparr> errorMsg := None,
                   portfolioStocks := data,
                   localStorage := (localStorage st)\<lparr> finance_portfolio_data := Parsed data \<rparr>,
                   portfolioLoading := False \<rparr>
           | Inl err \<Rightarrow>
               st\<lparr> errorMsg := Some AnalyzeFailedMsg, portfolioLoading := False \<rparr>)"

section \<open>Concrete plans, states and inputs\<close>

text \<open>The default plan after \<open>handleInputChange('expectedAnnualReturn', "0")\<close>.\<close>

definition zeroReturnPlan :: RetirementPlan where
  "zeroReturnPlan = defaultPlan\<lparr> expectedAnnualReturn := Fin 0 \<rparr>"

definition lateInsurancePlan :: RetirementPlan where
  "lateInsurancePlan = defaultPlan\<lparr> insuranceYearDone := 2100 \<rparr>"

definition staleResult :: RetirementResult where
  "staleResult = \<lparr> yearsToRetire = 35, totalAccumulated = Fin 30000000,
      monthlyPensionPossible = Fin 100000, isGoalReachable = True, shortfall = Fin 0,
      advice = [] \<rparr>"

definition retiredState :: CalcState where
  "retiredState = \<lparr> plan = defaultPlan\<lparr> currentAge := 70 \<rparr>, cashSavings = Fin 1000000,
      result = Some staleResult, savedPlan = Parsed (stringifyPlan defaultPlan) \<rparr>"

definition tsmcAnalysis :: StockAnalysis where
  "tsmcAnalysis = \<lparr> symbol = ''2330'', name = ''TSMC'', marketCap = ''30T'',
      high52Week = Fin 1200, low52Week = Fin 800, currentPrice = Fin 1000,
      suggestBuyPrice = Fin 900, suggestSellPrice = Fin 1100, recommendation = HOLD,
      analysis = ''steady'', projectedAnnualYield = ''2-3%'', exampleScenario = ''hold'' \<rparr>"







definition emptyStorage :: Storage where
  "emptyStorage = \<lparr> finance_portfolio_symbols = Absent, finance_stock_quantities = Absent,
      finance_portfolio_data = Absent \<rparr>"

text \<open>Quantities \<open>{ "2330": 100 }\<close> with no watch-list, and with a watch-list that does not parse.\<close>

definition lostWatchList :: Storage where
  "lostWatchList = emptyStorage\<lparr> finance_stock_quantities := Parsed [(''2330'', Fin 100)] \<rparr>"

definition corruptWatchList :: Storage where
  "corruptWatchList = lostWatchList\<lparr> finance_portfolio_symbols := Unparseable \<rparr>"

definition holdingState :: AppState where
  "holdingState = \<lparr> stockQuantities = [(''2330'', Fin 100)], mySymbols = [''2330''],
      portfolioStocks = [tsmcAnalysis], portfolioLoading = False, inputSymbol = [],
      errorMsg = None,
      localStorage = \<lparr> finance_portfolio_symbols = Parsed [''2330''],
        finance_stock_quantities = Parsed [(''2330'', Fin 100)],
        finance_portfolio_data = Parsed [tsmcAnalysis] \<rparr> \<rparr>"

text \<open>A response whose text has no fenced block, no bracketed span, and is not JSON.\<close>

definition garbledResponse :: ApiOutcome where
  "garbledResponse =
     Responds (Some \<lparr> jsonBlock = None, arrayMatch = None, wholeText = SyntaxError \<rparr>)"

definition emptyApp :: AppState where
  "emptyApp = \<lparr> stockQuantities = [], mySymbols = [], portfolioStocks = [],
      portfolioLoading = False, inputSymbol = [], errorMsg = None,
      localStorage = \<lparr> finance_portfolio_symbols = Parsed [],
        finance_stock_quantities = Parsed [], finance_portfolio_data = Parsed [] \<rparr> \<rparr>"

definition duplicateInput :: AppState where
  "duplicateInput = emptyApp\<lparr> inputSymbol := ''2330, 2330'' \<rparr>"

text \<open>The input \<open>A\<close>, a tab, \<open>B\<close>.\<close>

definition tabInput :: AppState where
  "tabInput = emptyApp\<lparr> inputSymbol := [CHR ''A'', CHR 0x09, CHR ''B''] \<rparr>"

definition typoInput :: AppState where
  "typoInput = emptyApp\<lparr> mySymbols := [''TSMC''], inputSymbol := '' tsmc,304  2317 '' \<rparr>"

section \<open>The projection\<close>

lemma pow_nat_Fin: "pow_nat (Fin a) n = Fin (a ^ n)"
  by (simp add: pow_nat_def)

lemma Math_pow_Fin: "0 \<le> n \<Longrightarrow> Math_pow (Fin a) n = Fin (a ^ nat n)"
  by (simp add: Math_pow_def pow_nat_Fin)

lemma Math_pow_0: "Math_pow x 0 = Fin 1"
  by (simp add: Math_pow_def pow_nat_def)

lemma js_mul_one: "js_mul x (Fin 1) = x"
  by (cases x) simp_all

text \<open>
  With a return that is not 0 and finite numbers, the annuity term of \<open>calculate\<close> is the
  closed form.
\<close>

lemma fvMonthly_closed_form:
  assumes "currentAge p < retirementAge p"
      and "monthlySavings p = Fin m"
      and "expectedAnnualReturn p = Fin a"
      and "a \<noteq> 0"
  shows "fvMonthly p =
     Fin (m * ((1 + a / 100 / 12) ^ nat ((retirementAge p - currentAge p) * 12) - 1)
            / (a / 100 / 12))"
  using assms
  by (simp add: fvMonthly_def monthlyRate_def months_def planYearsToRetire_def
      Math_pow_Fin js_sub_def)

text \<open>With a return of 0 the term is \<open>0 / 0\<close> times the monthly savings, for every plan.\<close>

lemma fvMonthly_zero_rate:
  assumes "expectedAnnualReturn p = Fin 0" and "currentAge p < retirementAge p"
  shows "fvMonthly p = NaN"
  using assms
  by (cases "monthlySavings p")
     (simp_all add: fvMonthly_def monthlyRate_def months_def planYearsToRetire_def
        Math_pow_Fin js_sub_def)

text \<open>
  C1.  The annuity term is the closed form when the monthly rate is not 0, and is
  \<open>monthlySavings * months\<close> when the rate is 0.  The second half fails on the code:
  \<open>calculate\<close> has no case for a rate of 0.  At the default plan with an expected return
  of 0 (35 years, 420 months, 20000 a month) the term is \<open>20000 * ((1 - 1) / 0)\<close>, which
  is \<open>NaN\<close> and not \<open>20000 * 420\<close>, and the total of the result is \<open>NaN\<close>.
\<close>

theorem C1_annuity_zero_rate_is_NaN:
  "monthlyRate zeroReturnPlan = Fin 0
   \<and> months zeroReturnPlan = 420
   \<and> fvMonthly zeroReturnPlan = NaN
   \<and> fvMonthly zeroReturnPlan \<noteq> js_mul (monthlySavings zeroReturnPlan) (Fin 420)
   \<and> map_option totalAccumulated (result (calculate 2026 zeroReturnPlan st)) = Some NaN"
  by (simp add: zeroReturnPlan_def defaultPlan_def fvMonthly_def monthlyRate_def months_def
      planYearsToRetire_def Math_pow_Fin js_sub_def calculate_def calcResult_def
      fvLumpSum_def Let_def)

text \<open>
  C9.  The insurance term of the projection is the principal times
  \<open>(1 + insuranceRate / 100)\<close> to the power \<open>max 0 (retireYear - insuranceYearDone)\<close>,
  with \<open>retireYear\<close> the current year plus the years to retirement; when
  \<open>insuranceYearDone\<close> is after \<open>retireYear\<close> the term is the principal itself; and the
  term is the third summand of the total that \<open>calculate\<close> stores.
\<close>

theorem C9_insurance_term:
  "(insurancePrincipal p = Fin P \<and> insuranceRate p = Fin r \<longrightarrow>
      fvInsurance yr p =
        Fin (P * (1 + r / 100)
               ^ nat (max 0 (yr + (retirementAge p - currentAge p) - insuranceYearDone p))))
   \<and> (yr + (retirementAge p - currentAge p) < insuranceYearDone p \<longrightarrow>
        fvInsurance yr p = insurancePrincipal p)
   \<and> (currentAge p < retirementAge p \<longrightarrow>
        map_option totalAccumulated (result (calculate yr p st)) =
          Some (js_add (js_add (fvLumpSum p) (fvMonthly p)) (fvInsurance yr p)))"
  by (simp add: fvInsurance_def insuranceCompoundingYears_def retireYear_def
      planYearsToRetire_def Math_pow_Fin Math_pow_0 js_mul_one calculate_def calcResult_def
      Let_def)

theorem C9_insurance_term_witness:
  "fvInsurance 2026 lateInsurancePlan = Fin 200000
   \<and> fvInsurance 2026 lateInsurancePlan = insurancePrincipal lateInsurancePlan
   \<and> map_option totalAccumulated (result (calculate 2026 lateInsurancePlan retiredState)) =
       Some (js_add (js_add (fvLumpSum lateInsurancePlan) (fvMonthly lateInsurancePlan))
               (fvInsurance 2026 lateInsurancePlan))"
proof -
  note inst = C9_insurance_term [of lateInsurancePlan 200000 "5 / 2" 2026 retiredState]
  have principal: "insurancePrincipal lateInsurancePlan = Fin 200000"
    by (simp add: lateInsurancePlan_def defaultPlan_def)
  have late: "2026 + (retirementAge lateInsurancePlan - currentAge lateInsurancePlan)
      < insuranceYearDone lateInsurancePlan"
    by (simp add: lateInsurancePlan_def defaultPlan_def)
  have age: "currentAge lateInsurancePlan < retirementAge lateInsurancePlan"
    by (simp add: lateInsurancePlan_def defaultPlan_def)
  from inst late have clamp: "fvInsurance 2026 lateInsurancePlan = insurancePrincipal lateInsurancePlan"
    by blast
  from inst age have total:
    "map_option totalAccumulated (result (calculate 2026 lateInsurancePlan retiredState)) =
       Some (js_add (js_add (fvLumpSum lateInsurancePlan) (fvMonthly lateInsurancePlan))
               (fvInsurance 2026 lateInsurancePlan))"
    by blast
  from clamp principal have "fvInsurance 2026 lateInsurancePlan = Fin 200000"
    by simp
  with clamp total show ?thesis by blast
qed

text \<open>
  C10.  When the retirement age is not above the current age, \<open>calculate\<close> returns
  without a result: the state, and with it the result stored before, is as it was, also
  when the call comes from the effect on the plan.
\<close>

theorem C10_not_computable_keeps_result:
  "retirementAge p \<le> currentAge p \<Longrightarrow>
     calculate yr p st = st \<and> result (planEffect yr p st) = result st"
  by (simp add: calculate_def planEffect_def planYearsToRetire_def)

theorem C10_not_computable_keeps_result_witness:
  "calculate 2026 (plan retiredState) retiredState = retiredState
   \<and> result (planEffect 2026 (plan retiredState) retiredState) = Some staleResult"
  using C10_not_computable_keeps_result [of "plan retiredState" 2026 retiredState]
  by (simp add: retiredState_def defaultPlan_def)

section \<open>Cash, portfolio value and the plan's total\<close>

lemma calculate_plan [simp]: "plan (calculate yr p st) = plan st"
  and calculate_cash [simp]: "cashSavings (calculate yr p st) = cashSavings st"
  and calculate_saved [simp]: "savedPlan (calculate yr p st) = savedPlan st"
  by (simp_all add: calculate_def)

lemma planEffect_plan [simp]: "plan (planEffect yr p st) = plan st"
  and planEffect_cash [simp]: "cashSavings (planEffect yr p st) = cashSavings st"
  and planEffect_saved [simp]: "savedPlan (planEffect yr p st) = Parsed (stringifyPlan p)"
  by (simp_all add: planEffect_def)


lemma syncEffect_cash [simp]: "cashSavings (syncEffect yr ptv st) = cashSavings st"
  by (simp add: syncEffect_def Let_def)













lemma portfolioTotalValue_no_analysis:
  "props_portfolioStocks props = [] \<Longrightarrow> portfolioTotalValue props = Fin 0"
  by (simp add: portfolioTotalValue_def)










section \<open>Initialisation of the watch-list\<close>

text \<open>
  C2 as stated fails where the watch-list falls back to empty on a parse failure: with
  a watch-list that does not parse and quantities \<open>{ "2330": 100 }\<close>, the throw of
  \<open>JSON.parse\<close> lands in the \<open>catch\<close> of the initialiser, which returns the empty
  list without the recovery and without a write; the persistence effect then stores the
  empty list.
\<close>

theorem C2_corrupt_watch_list_not_recovered:
  "loadedWatchList corruptWatchList = []
   \<and> initStockQuantities corruptWatchList = [(''2330'', Fin 100)]
   \<and> initMySymbols corruptWatchList = ([], corruptWatchList)
   \<and> mySymbols (initApp corruptWatchList) = []
   \<and> finance_portfolio_symbols (localStorage (initApp corruptWatchList)) = Parsed []"
  by (simp add: loadedWatchList_def corruptWatchList_def lostWatchList_def emptyStorage_def
      initStockQuantities_def initMySymbols_def initApp_def initPortfolioStocks_def Let_def)

text \<open>
  C2, amended.  When the watch-list is absent or parses to the empty list, and the
  loaded quantities are not empty, the initialiser returns the keys of the quantities
  and writes them under the watch-list's key at once; the watch-list of the first
  render is the list of keys, and its set is the key set of the quantities.  When the
  watch-list does not parse, the initialiser returns the empty list and writes nothing.
\<close>

theorem C2_watch_list_recovered_from_quantities:
  assumes "finance_portfolio_symbols s = Absent \<or> finance_portfolio_symbols s = Parsed []"
      and "initStockQuantities s \<noteq> []"
  shows "mySymbols (initApp s) = map fst (stockQuantities (initApp s))
       \<and> set (mySymbols (initApp s)) = fst ` set (stockQuantities (initApp s))
       \<and> initMySymbols s =
           (map fst (initStockQuantities s),
            s\<lparr> finance_portfolio_symbols := Parsed (map fst (initStockQuantities s)) \<rparr>)
       \<and> (finance_portfolio_symbols t = Unparseable \<longrightarrow> initMySymbols t = ([], t))"
  using assms
  by (auto simp add: initApp_def initMySymbols_def recoverFromQuantities_def
      initStockQuantities_def Let_def split: stored.splits)

theorem C2_watch_list_recovered_from_quantities_witness:
  "initMySymbols lostWatchList =
     ([''2330''], lostWatchList\<lparr> finance_portfolio_symbols := Parsed [''2330''] \<rparr>)
   \<and> mySymbols (initApp lostWatchList) = [''2330'']
   \<and> initMySymbols corruptWatchList = ([], corruptWatchList)"
proof -
  have corrupt: "finance_portfolio_symbols corruptWatchList = Unparseable"
    by (simp add: corruptWatchList_def)
  have a: "finance_portfolio_symbols lostWatchList = Absent
      \<or> finance_portfolio_symbols lostWatchList = Parsed []"
    by (simp add: lostWatchList_def emptyStorage_def)
  have q: "initStockQuantities lostWatchList = [(''2330'', Fin 100)]"
    by (simp add: initStockQuantities_def lostWatchList_def emptyStorage_def)
  have n: "initStockQuantities lostWatchList \<noteq> []"
    by (simp add: q)
  have sq: "stockQuantities (initApp lostWatchList) = [(''2330'', Fin 100)]"
    by (simp add: initApp_def q Let_def split: prod.splits)
  from C2_watch_list_recovered_from_quantities [OF a n, where t = corruptWatchList] corrupt
  show ?thesis
    by (simp add: q sq)
qed

section \<open>The analysis request\<close>

text \<open>
  C3 as stated fails for a response that does not parse: \<open>extractJson\<close> catches the
  throw and returns the empty array, \<open>analyzePortfolio\<close> resolves with it, and the
  handler replaces the stored analysis by the empty list, writes it, and sets no error.
\<close>

theorem C3_garbled_response_replaces_analysis:
  "portfolioStocks holdingState = [tsmcAnalysis]
   \<and> portfolioStocks (handleAnalyzePortfolio garbledResponse holdingState) = []
   \<and> errorMsg (handleAnalyzePortfolio garbledResponse holdingState) = None
   \<and> finance_portfolio_data (localStorage (handleAnalyzePortfolio garbledResponse holdingState))
       = Parsed []"
  by (simp add: holdingState_def garbledResponse_def handleAnalyzePortfolio_def
      analyzePortfolio_def extractJson_def orEmpty_def)

text \<open>
  C3, amended.  When the request throws (no credential, or the call is rejected), the
  handler sets the error message and leaves the watch-list, the quantities, the stored
  analysis and the storage as they were.  When a response arrives, whatever its text,
  the stored analysis is replaced as a whole by what \<open>extractJson\<close> returns for it
  (the empty list for a response without text), and no error is set.
\<close>

theorem C3_thrown_failure_keeps_state:
  assumes "mySymbols st \<noteq> []"
  shows "errorMsg (handleAnalyzePortfolio (Throws e) st) = Some AnalyzeFailedMsg
       \<and> mySymbols (handleAnalyzePortfolio (Throws e) st) = mySymbols st
       \<and> stockQuantities (handleAnalyzePortfolio (Throws e) st) = stockQuantities st
       \<and> portfolioStocks (handleAnalyzePortfolio (Throws e) st) = portfolioStocks st
       \<and> localStorage (handleAnalyzePortfolio (Throws e) st) = localStorage st
       \<and> portfolioStocks (handleAnalyzePortfolio (Responds (Some t)) st) = extractJson t
       \<and> finance_portfolio_data (localStorage (handleAnalyzePortfolio (Responds (Some t)) st))
           = Parsed (extractJson t)
       \<and> errorMsg (handleAnalyzePortfolio (Responds (Some t)) st) = None
       \<and> portfolioStocks (handleAnalyzePortfolio (Responds None) st) = []
       \<and> finance_portfolio_data (localStorage (handleAnalyzePortfolio (Responds None) st))
           = Parsed []
       \<and> errorMsg (handleAnalyzePortfolio (Responds None) st) = None"
  using assms
  by (simp add: handleAnalyzePortfolio_def analyzePortfolio_def extractJson_def
      emptyArrayText_def orEmpty_def)

theorem C3_thrown_failure_keeps_state_witness:
  "errorMsg (handleAnalyzePortfolio (Throws ApiKeyMissing) holdingState) = Some AnalyzeFailedMsg
   \<and> mySymbols (handleAnalyzePortfolio (Throws ApiKeyMissing) holdingState) = [''2330'']
   \<and> stockQuantities (handleAnalyzePortfolio (Throws ApiKeyMissing) holdingState)
       = [(''2330'', Fin 100)]
   \<and> portfolioStocks (handleAnalyzePortfolio (Throws ApiKeyMissing) holdingState)
       = [tsmcAnalysis]
   \<and> localStorage (handleAnalyzePortfolio (Throws ApiKeyMissing) holdingState)
       = localStorage holdingState
   \<and> portfolioStocks (handleAnalyzePortfolio (Responds (Some emptyArrayText)) holdingState)
       = []"
proof -
  have watch: "mySymbols holdingState \<noteq> []"
    by (simp add: holdingState_def)
  have empty: "extractJson emptyArrayText = []"
    by (simp add: extractJson_def emptyArrayText_def orEmpty_def)
  from C3_thrown_failure_keeps_state [OF watch, of ApiKeyMissing emptyArrayText] show ?thesis
    by (simp add: holdingState_def empty)
qed

section \<open>Quantities\<close>

text \<open>
  C4 as stated fails: \<open>handleQuantityChange\<close> has no check of the quantity.  With
  100 shares of 2330 held, the quantity -5 is stored in the state and written to storage.
\<close>

theorem C4_negative_quantity_is_stored:
  "stockQuantities holdingState = [(''2330'', Fin 100)]
   \<and> stockQuantities (handleQuantityChange ''2330'' (Fin (- 5)) holdingState) =
       [(''2330'', Fin (- 5))]
   \<and> finance_stock_quantities
       (localStorage (handleQuantityChange ''2330'' (Fin (- 5)) holdingState)) =
       Parsed [(''2330'', Fin (- 5))]"
  by (simp add: holdingState_def handleQuantityChange_def Let_def)

text \<open>
  C4, amended.  For every symbol and every quantity, negative or not,
  \<open>handleQuantityChange\<close> sets the quantity of that symbol, leaves the other quantities,
  the watch-list and the analysis as they were, and writes the new quantities at once.
\<close>

theorem C4_quantity_upsert_persisted:
  "map_of (stockQuantities (handleQuantityChange symb qty st)) =
     (map_of (stockQuantities st))(symb \<mapsto> qty)
   \<and> finance_stock_quantities (localStorage (handleQuantityChange symb qty st)) =
       Parsed (stockQuantities (handleQuantityChange symb qty st))
   \<and> mySymbols (handleQuantityChange symb qty st) = mySymbols st
   \<and> portfolioStocks (handleQuantityChange symb qty st) = portfolioStocks st"
  by (simp add: handleQuantityChange_def Let_def update_conv')

section \<open>Removing a symbol\<close>

text \<open>The flag of the component is true exactly when some symbol is pending.\<close>

lemma hasPendingSymbols_pendingSymbols: "hasPendingSymbols st = (pendingSymbols st \<noteq> [])"
proof (cases "mySymbols st")
  case Nil
  then show ?thesis by (simp add: hasPendingSymbols_def pendingSymbols_def)
next
  case (Cons a as)
  then show ?thesis
    by (cases "portfolioStocks st")
       (auto simp add: hasPendingSymbols_def pendingSymbols_def Let_def list_ex_iff
          filter_empty_conv)
qed

text \<open>
  C8.  \<open>handleRemoveSymbol s\<close> takes \<open>s\<close>, and nothing else, off the watch-list, leaves
  no analysis entry for \<open>s\<close>, and leaves the quantities, in the state and in storage, as
  they were; afterwards \<open>s\<close> is not a pending symbol.
\<close>

theorem C8_remove_symbol_frame:
  "s \<notin> set (mySymbols (handleRemoveSymbol s st))
   \<and> set (mySymbols (handleRemoveSymbol s st)) = set (mySymbols st) - {s}
   \<and> s \<notin> set (map symbol (portfolioStocks (handleRemoveSymbol s st)))
   \<and> stockQuantities (handleRemoveSymbol s st) = stockQuantities st
   \<and> finance_stock_quantities (localStorage (handleRemoveSymbol s st)) =
       finance_stock_quantities (localStorage st)
   \<and> s \<notin> set (pendingSymbols (handleRemoveSymbol s st))"
  by (auto simp add: handleRemoveSymbol_def pendingSymbols_def Let_def)

section \<open>Adding symbols\<close>

declare tokens.simps [simp del]

lemma tokens_Nil: "tokens sep [] = []"
  by (simp add: tokens.simps)

lemma tokens_sep_Cons: "sep c \<Longrightarrow> tokens sep (c # cs) = tokens sep cs"
  by (subst tokens.simps, subst (2) tokens.simps) simp

lemma tokens_run:
  assumes "\<forall>x \<in> set w. \<not> sep x" and "w \<noteq> []"
  shows "tokens sep w = [w]"
    and "sep c \<Longrightarrow> tokens sep (w @ c # cs) = w # tokens sep cs"
proof -
  from assms obtain a r where w: "w = a # r" by (cases w) auto
  with assms have a: "\<not> sep a" and r: "\<forall>x \<in> set r. \<not> sep x" by auto
  from r have run: "takeWhile (\<lambda>x. \<not> sep x) r = r" "dropWhile (\<lambda>x. \<not> sep x) r = []"
    by simp_all
  from a show "tokens sep w = [w]"
    by (subst tokens.simps) (simp add: w run tokens_Nil)
  assume c: "sep c"
  from r c have tw: "takeWhile (\<lambda>x. \<not> sep x) (r @ c # cs) = r"
    by (simp add: takeWhile_append)
  from r c have dw: "dropWhile (\<lambda>x. \<not> sep x) (r @ c # cs) = c # cs"
    by (simp add: dropWhile_append)
  from a show "tokens sep (w @ c # cs) = w # tokens sep cs"
    by (subst tokens.simps) (simp add: w tw dw tokens_sep_Cons c)
qed

lemma tokens_dropWhile: "tokens sep (dropWhile sep s) = tokens sep s"
  by (induction s) (simp_all add: tokens_sep_Cons)

text \<open>
  The strings \<open>split\<close> returns, the empty ones dropped, are the tokens; \<open>cur\<close> is the
  part of the current string read so far.
\<close>

lemma js_split_tokens:
  "\<forall>x \<in> set cur. \<not> isSeparator x \<Longrightarrow>
     filter (\<lambda>t. t \<noteq> []) (js_split cur s) = tokens isSeparator (rev cur @ s)"
proof (induction cur s rule: js_split.induct)
  case (1 cur)
  then show ?case
    by (cases "cur = []") (simp_all add: tokens_Nil tokens_run(1))
next
  case (2 cur c cs)
  show ?case
  proof (cases "isSeparator c")
    case True
    with 2 have rest:
      "filter (\<lambda>t. t \<noteq> []) (js_split [] (dropWhile isSeparator cs)) = tokens isSeparator cs"
      by (simp add: tokens_dropWhile)
    show ?thesis
    proof (cases "cur = []")
      case True
      with \<open>isSeparator c\<close> rest show ?thesis by (simp add: tokens_sep_Cons)
    next
      case False
      with \<open>isSeparator c\<close> rest 2(3) show ?thesis
        by (simp add: tokens_run(2))
    qed
  next
    case False
    with 2 show ?thesis by simp
  qed
qed

lemma cleanSymbol_Nil: "cleanSymbol [] = []"
  by (simp add: cleanSymbol_def trim_def toUpperCase_def)

lemma filter_map_nonempty:
  "f [] = [] \<Longrightarrow>
     filter (\<lambda>t. t \<noteq> []) (map f (filter (\<lambda>t. t \<noteq> []) xs)) =
     filter (\<lambda>t. t \<noteq> []) (map f xs)"
  by (induction xs) simp_all

lemma newSymbols_tokens:
  "newSymbols input = filter (\<lambda>t. t \<noteq> []) (map cleanSymbol (tokens isSeparator input))"
proof -
  have "tokens isSeparator input = filter (\<lambda>t. t \<noteq> []) (js_split [] input)"
    using js_split_tokens [of "[]" input] by simp
  then show ?thesis
    by (simp add: newSymbols_def filter_map_nonempty cleanSymbol_Nil)
qed

lemma uniqueNewSymbols_spec:
  "uniqueNewSymbols watch input = addSymbols_spec isSeparator watch input"
  by (simp add: uniqueNewSymbols_def addSymbols_spec_def newSymbols_tokens)

lemma addSymbols_spec_Nil: "addSymbols_spec sep watch [] = []"
  by (simp add: addSymbols_spec_def tokens_Nil)

text \<open>
  C5.  From a watch-list without duplicates, \<open>handleAddSymbol\<close> gives a watch-list
  without duplicates.  This fails on the code: the new symbols are filtered against the
  watch-list only, not against each other.  On the empty watch-list, the input
  \<open>2330, 2330\<close> appends 2330 twice.
\<close>

theorem C5_repeated_token_added_twice:
  "distinct (mySymbols duplicateInput)
   \<and> mySymbols (handleAddSymbol duplicateInput) = [''2330'', ''2330'']
   \<and> \<not> distinct (mySymbols (handleAddSymbol duplicateInput))
   \<and> finance_portfolio_symbols (localStorage (handleAddSymbol duplicateInput))
       = Parsed [''2330'', ''2330'']"
  by (simp add: duplicateInput_def emptyApp_def handleAddSymbol_def uniqueNewSymbols_def
      newSymbols_def cleanSymbol_def trim_def toUpperCase_def toUpperChar_def
      isWhiteSpace_def isSeparator_def Let_def)

text \<open>
  C7 as stated fails on white space other than the space: the input is split at commas
  and spaces only.  The input \<open>A\<close>, tab, \<open>B\<close> is one token, which \<open>trim\<close> leaves whole,
  where splitting at commas and white space gives the two tokens \<open>A\<close> and \<open>B\<close>.
\<close>

theorem C7_tab_is_not_a_separator:
  "mySymbols (handleAddSymbol tabInput) = [[CHR ''A'', CHR 0x09, CHR ''B'']]
   \<and> addSymbols_spec commaOrWhiteSpace (mySymbols tabInput) (inputSymbol tabInput)
       = [''A'', ''B'']
   \<and> mySymbols (handleAddSymbol tabInput) \<noteq>
       mySymbols tabInput
         @ addSymbols_spec commaOrWhiteSpace (mySymbols tabInput) (inputSymbol tabInput)"
  by (simp add: tabInput_def emptyApp_def handleAddSymbol_def uniqueNewSymbols_def
      newSymbols_def addSymbols_spec_def tokens.simps commaOrWhiteSpace_def cleanSymbol_def
      trim_def toUpperCase_def toUpperChar_def isWhiteSpace_def isSeparator_def Let_def)

text \<open>
  C7, amended.  \<open>handleAddSymbol\<close> splits the input at commas and spaces, trims and
  upper-cases each token, maps \<open>304\<close> to \<open>3042\<close>, drops the empty tokens and the tokens
  on the watch-list, and appends the rest in the order of the input, writing the new
  watch-list at once and clearing the input; when nothing is left to append, the state
  is as it was.
\<close>

theorem C7_add_symbols_refines_spec:
  "handleAddSymbol st =
     (let added = addSymbols_spec isSeparator (mySymbols st) (inputSymbol st)
      in if added = [] then st
         else st\<lparr> mySymbols := mySymbols st @ added,
                 localStorage :=
                   (localStorage st)\<lparr> finance_portfolio_symbols := Parsed (mySymbols st @ added) \<rparr>,
                 inputSymbol := [] \<rparr>)"
  by (simp add: handleAddSymbol_def Let_def uniqueNewSymbols_spec addSymbols_spec_Nil)

theorem C7_add_symbols_refines_spec_witness:
  "addSymbols_spec isSeparator (mySymbols typoInput) (inputSymbol typoInput)
     = [''3042'', ''2317'']
   \<and> mySymbols (handleAddSymbol typoInput) = [''TSMC'', ''3042'', ''2317'']
   \<and> finance_portfolio_symbols (localStorage (handleAddSymbol typoInput))
       = Parsed [''TSMC'', ''3042'', ''2317'']
   \<and> inputSymbol (handleAddSymbol typoInput) = []"
proof -
  have added: "addSymbols_spec isSeparator (mySymbols typoInput) (inputSymbol typoInput)
      = [''3042'', ''2317'']"
    by (simp add: typoInput_def emptyApp_def addSymbols_spec_def tokens.simps cleanSymbol_def
        trim_def toUpperCase_def toUpperChar_def isWhiteSpace_def isSeparator_def Let_def)
  have watch: "mySymbols typoInput = [''TSMC'']"
    by (simp add: typoInput_def)
  from C7_add_symbols_refines_spec [of typoInput]
  have step: "handleAddSymbol typoInput =
      typoInput\<lparr> mySymbols := mySymbols typoInput @ [''3042'', ''2317''],
                 localStorage :=
                   (localStorage typoInput)\<lparr> finance_portfolio_symbols :=
                      Parsed (mySymbols typoInput @ [''3042'', ''2317'']) \<rparr>,
                 inputSymbol := [] \<rparr>"
    by (simp add: added Let_def)
  have rest: "mySymbols (handleAddSymbol typoInput) = [''TSMC'', ''3042'', ''2317'']
      \<and> finance_portfolio_symbols (localStorage (handleAddSymbol typoInput))
          = Parsed [''TSMC'', ''3042'', ''2317'']
      \<and> inputSymbol (handleAddSymbol typoInput) = []"
    by (simp add: step watch)
  from added rest show ?thesis by blast
qed

end
